theory Spec2Isabelle
  imports Main
begin

section \<open>The form submission handler of \<^verbatim>\<open>web_interface/static/js/main.js\<close>\<close>

text \<open>
  The script registers one asynchronous \<^verbatim>\<open>submit\<close> listener and four helpers
  (\<^verbatim>\<open>showError\<close>, \<^verbatim>\<open>hideError\<close>, \<^verbatim>\<open>hideResults\<close>, \<^verbatim>\<open>showResults\<close>).
  The model follows one run of the listener:
  \<^item> the page elements the script touches are the fields of a record, together with the
    list of outward effects of the run (the request sent, the body read, the console);
  \<^item> the network is a parameter: \<^verbatim>\<open>fetch\<close> maps the request to a promise, which stays
    pending for ever, rejects, or fulfils with a response whose \<^verbatim>\<open>json()\<close> is a promise
    again;
  \<^item> every \<^verbatim>\<open>throw\<close> and every \<^verbatim>\<open>TypeError\<close> of a property read is a value, so the
    \<^verbatim>\<open>try\<close>/\<^verbatim>\<open>catch\<close>/\<^verbatim>\<open>finally\<close> is a case distinction on how the block completed;
  \<^item> one run is followed on its own: no other listener changes the page while the run
    waits for the network, and the elements the script looks up exist.
\<close>

subsection \<open>JavaScript values\<close>

text \<open>
  The values \<^verbatim>\<open>response.json()\<close> can produce, and \<^verbatim>\<open>undefined\<close>, which reading a
  missing property gives. An object is the list of its own properties; the first entry
  for a key is the property's value. Numbers are IEEE doubles in the source; the model
  keeps their type \<open>'n\<close> open and takes the three things the handler does with a number
  as a parameter: its truthiness test, its conversion to a string, and \<^verbatim>\<open>toFixed\<close>.
\<close>

datatype 'n jsval =
    JUndefined
  | JNull
  | JBool bool
  | JNum 'n
  | JStr string
  | JArr "'n jsval list"
  | JObj "(string \<times> 'n jsval) list"

record 'n number_ops =
  num_falsy :: "'n \<Rightarrow> bool"              \<comment> \<open>the number is \<open>+0\<close>, \<open>-0\<close> or \<open>NaN\<close>\<close>
  num_toString :: "'n \<Rightarrow> string"         \<comment> \<open>\<^verbatim>\<open>String(n)\<close>\<close>
  num_toFixed :: "'n \<Rightarrow> nat \<Rightarrow> string"    \<comment> \<open>\<^verbatim>\<open>n.toFixed(digits)\<close>\<close>

text \<open>What the script can throw or be handed by a rejected promise.\<close>

datatype exn =
    Error string      \<comment> \<open>\<^verbatim>\<open>new Error(message)\<close>\<close>
  | TypeError
  | SyntaxError

definition bindE :: "exn + 'a \<Rightarrow> ('a \<Rightarrow> exn + 'b) \<Rightarrow> exn + 'b" where
  "bindE m f = (case m of Inl e \<Rightarrow> Inl e | Inr x \<Rightarrow> f x)"

text \<open>The condition of \<^verbatim>\<open>if (v)\<close> and \<^verbatim>\<open>v ? a : b\<close>.\<close>

fun truthy :: "'n number_ops \<Rightarrow> 'n jsval \<Rightarrow> bool" where
  "truthy ops JUndefined = False"
| "truthy ops JNull = False"
| "truthy ops (JBool b) = b"
| "truthy ops (JNum n) = (\<not> num_falsy ops n)"
| "truthy ops (JStr s) = (s \<noteq> [])"
| "truthy ops (JArr xs) = True"
| "truthy ops (JObj fs) = True"

definition field :: "(string \<times> 'n jsval) list \<Rightarrow> string \<Rightarrow> 'n jsval" where
  "field fs k = (case map_of fs k of None \<Rightarrow> JUndefined | Some v \<Rightarrow> v)"

text \<open>
  The property read \<^verbatim>\<open>v.k\<close>, for the names the handler reads (\<^verbatim>\<open>error\<close>,
  \<^verbatim>\<open>sentiment\<close>, \<^verbatim>\<open>score\<close>, \<^verbatim>\<open>translation\<close>, \<^verbatim>\<open>text\<close>, \<^verbatim>\<open>chat\<close>, \<^verbatim>\<open>response\<close>,
  \<^verbatim>\<open>performance\<close>): on \<^verbatim>\<open>undefined\<close> and \<^verbatim>\<open>null\<close> it throws, on an object it is the own
  property or \<^verbatim>\<open>undefined\<close>, and no prototype of a boolean, number, string or array has
  a property of one of these names.
\<close>

fun getprop :: "'n jsval \<Rightarrow> string \<Rightarrow> exn + 'n jsval" where
  "getprop JUndefined k = Inl TypeError"
| "getprop JNull k = Inl TypeError"
| "getprop (JObj fs) k = Inr (field fs k)"
| "getprop v k = Inr JUndefined"

text \<open>
  The conversion to a string that a template literal applies to each substitution and
  \<^verbatim>\<open>new Error\<close> to its message. An array is joined with commas, \<^verbatim>\<open>undefined\<close> and
  \<^verbatim>\<open>null\<close> elements giving the empty string. A plain object converts through
  \<^verbatim>\<open>Object.prototype.toString\<close> unless an own property \<^verbatim>\<open>toString\<close> shadows it: that
  property holds data, is not callable, and \<^verbatim>\<open>valueOf\<close> returns the object itself, so
  the conversion throws.
\<close>

fun toStringJS :: "'n number_ops \<Rightarrow> 'n jsval \<Rightarrow> exn + string"
  and joinJS :: "'n number_ops \<Rightarrow> 'n jsval list \<Rightarrow> exn + string" where
  "toStringJS ops JUndefined = Inr ''undefined''"
| "toStringJS ops JNull = Inr ''null''"
| "toStringJS ops (JBool b) = Inr (if b then ''true'' else ''false'')"
| "toStringJS ops (JNum n) = Inr (num_toString ops n)"
| "toStringJS ops (JStr s) = Inr s"
| "toStringJS ops (JArr xs) = joinJS ops xs"
| "toStringJS ops (JObj fs) =
     (case map_of fs ''toString'' of
        None \<Rightarrow> Inr ''[object Object]''
      | Some v \<Rightarrow> Inl TypeError)"
| "joinJS ops [] = Inr []"
| "joinJS ops (x # xs) =
     (case (case x of JUndefined \<Rightarrow> Inr [] | JNull \<Rightarrow> Inr [] | _ \<Rightarrow> toStringJS ops x) of
        Inl e \<Rightarrow> Inl e
      | Inr s \<Rightarrow>
          (case xs of
             [] \<Rightarrow> Inr s
           | y # ys \<Rightarrow> (case joinJS ops xs of Inl e \<Rightarrow> Inl e | Inr r \<Rightarrow> Inr (s @ '','' @ r))))"

text \<open>
  The call \<^verbatim>\<open>v.toFixed(digits)\<close>: only a number has the method. On \<^verbatim>\<open>undefined\<close> and
  \<^verbatim>\<open>null\<close> the property read throws, and on every other value \<^verbatim>\<open>v.toFixed\<close> is
  \<^verbatim>\<open>undefined\<close> or data, and calling it throws.
\<close>

fun toFixed :: "'n number_ops \<Rightarrow> 'n jsval \<Rightarrow> nat \<Rightarrow> exn + string" where
  "toFixed ops (JNum n) digits = Inr (num_toFixed ops n digits)"
| "toFixed ops v digits = Inl TypeError"

text \<open>
  The conversion the \<^verbatim>\<open>innerHTML\<close> setter applies to the assigned value: \<^verbatim>\<open>null\<close>
  becomes the empty string, everything else is converted as above.
\<close>

fun toDOMString :: "'n number_ops \<Rightarrow> 'n jsval \<Rightarrow> exn + string" where
  "toDOMString ops JNull = Inr []"
| "toDOMString ops v = toStringJS ops v"

text \<open>
  \<^verbatim>\<open>String.prototype.trim\<close> removes white space and line terminators from both ends.
  A \<open>char\<close> is one byte, so these are the code points of the two classes below 256.
\<close>

definition isWhiteSpace :: "char \<Rightarrow> bool" where
  "isWhiteSpace c =
     (c \<in> set [CHR 0x09, CHR 0x0A, CHR 0x0B, CHR 0x0C, CHR 0x0D, CHR 0x20, CHR 0xA0])"

definition trim :: "string \<Rightarrow> string" where
  "trim s = rev (dropWhile isWhiteSpace (rev (dropWhile isWhiteSpace s)))"

text \<open>The decimal digits of the status code, for \<^verbatim>\<open>${response.status}\<close>.\<close>

fun decimal :: "nat \<Rightarrow> string" where
  "decimal n =
     (if n < 10 then [''0123456789'' ! n]
      else decimal (n div 10) @ [''0123456789'' ! (n mod 10)])"

declare decimal.simps [simp del]

subsection \<open>The network\<close>

datatype 'a promise =
    Pending           \<comment> \<open>never settles: the script sets no timeout\<close>
  | Rejected exn
  | Fulfilled 'a

record request =
  url :: string
  httpMethod :: string
  headers :: "(string \<times> string) list"
  body :: "(string \<times> string) list"    \<comment> \<open>the object handed to \<^verbatim>\<open>JSON.stringify\<close>\<close>

record 'n response =
  status :: nat
  json :: "'n jsval promise"

definition ok :: "'n response \<Rightarrow> bool" where
  "ok r = (200 \<le> status r \<and> status r \<le> 299)"

subsection \<open>The page\<close>

datatype 'n event =
    PreventDefault
  | Fetch request
  | ReadJson
  | ConsoleError string exn
  | ConsoleLog string "'n jsval"

record 'n page =
  textValue :: string            \<comment> \<open>\<^verbatim>\<open>#text\<close>, \<^verbatim>\<open>value\<close>\<close>
  sourceLangValue :: string      \<comment> \<open>\<^verbatim>\<open>#sourceLang\<close>, \<^verbatim>\<open>value\<close>\<close>
  targetLangValue :: string      \<comment> \<open>\<^verbatim>\<open>#targetLang\<close>, \<^verbatim>\<open>value\<close>\<close>
  submitDisabled :: bool         \<comment> \<open>\<^verbatim>\<open>button[type="submit"]\<close>, \<^verbatim>\<open>disabled\<close>\<close>
  errorDisplay :: string         \<comment> \<open>\<^verbatim>\<open>#error\<close>, \<^verbatim>\<open>style.display\<close>\<close>
  errorMessage :: string         \<comment> \<open>\<^verbatim>\<open>#errorMessage\<close>, \<^verbatim>\<open>textContent\<close>\<close>
  resultsDisplay :: string       \<comment> \<open>\<^verbatim>\<open>#results\<close>, \<^verbatim>\<open>style.display\<close>\<close>
  sentimentResult :: string      \<comment> \<open>\<^verbatim>\<open>#sentimentResult\<close>, the markup assigned to \<^verbatim>\<open>innerHTML\<close>\<close>
  translationResult :: string    \<comment> \<open>\<^verbatim>\<open>#translationResult\<close>, likewise\<close>
  chatResult :: string           \<comment> \<open>\<^verbatim>\<open>#chatResult\<close>, likewise\<close>
  events :: "'n event list"      \<comment> \<open>the effects that leave the page, oldest first\<close>

definition emit :: "'n event \<Rightarrow> 'n page \<Rightarrow> 'n page" where
  "emit ev p = p\<lparr>events := events p @ [ev]\<rparr>"

definition showError :: "string \<Rightarrow> 'n page \<Rightarrow> 'n page" where
  "showError message p =
     p\<lparr>errorMessage := message, errorDisplay := ''block'', resultsDisplay := ''none''\<rparr>"

definition hideError :: "'n page \<Rightarrow> 'n page" where
  "hideError p = p\<lparr>errorDisplay := ''none''\<rparr>"

definition hideResults :: "'n page \<Rightarrow> 'n page" where
  "hideResults p = p\<lparr>resultsDisplay := ''none''\<rparr>"

definition showResults :: "'n page \<Rightarrow> 'n page" where
  "showResults p = p\<lparr>resultsDisplay := ''block''\<rparr>"

subsection \<open>The listener\<close>

datatype completion =
    Normal            \<comment> \<open>ran to its end\<close>
  | Throws exn
  | Suspended         \<comment> \<open>waits at an \<^verbatim>\<open>await\<close> whose promise never settles\<close>

definition errorSpan :: "string \<Rightarrow> string" where
  \<open>errorSpan m = ''<span class="text-danger">Error: '' @ m @ ''</span>''\<close>

definition sentimentHtml :: "'n number_ops \<Rightarrow> 'n jsval \<Rightarrow> exn + string" where
  "sentimentHtml ops data =
     bindE (getprop data ''sentiment'') (\<lambda>slot.
     bindE (getprop slot ''error'') (\<lambda>err.
       if truthy ops err then
         bindE (toStringJS ops err) (\<lambda>m. Inr (errorSpan m))
       else
         bindE (getprop slot ''sentiment'') (\<lambda>label.
         bindE (toStringJS ops label) (\<lambda>l.
         bindE (getprop slot ''score'') (\<lambda>score.
         bindE (toFixed ops score 2) (\<lambda>f.
           Inr (''Sentiment: '' @ l @ '' (Score: '' @ f @ '')'')))))))"

definition translationHtml :: "'n number_ops \<Rightarrow> 'n jsval \<Rightarrow> exn + 'n jsval" where
  "translationHtml ops data =
     bindE (getprop data ''translation'') (\<lambda>slot.
     bindE (getprop slot ''error'') (\<lambda>err.
       if truthy ops err then
         bindE (toStringJS ops err) (\<lambda>m. Inr (JStr (errorSpan m)))
       else getprop slot ''text''))"

definition chatHtml :: "'n number_ops \<Rightarrow> 'n jsval \<Rightarrow> exn + 'n jsval" where
  "chatHtml ops data =
     bindE (getprop data ''chat'') (\<lambda>slot.
     bindE (getprop slot ''error'') (\<lambda>err.
       if truthy ops err then
         bindE (toStringJS ops err) (\<lambda>m. Inr (JStr (errorSpan m)))
       else getprop slot ''response''))"

text \<open>Lines 41 to 65: the statements after the two guards of the \<^verbatim>\<open>try\<close> block.\<close>

definition displayResults :: "'n number_ops \<Rightarrow> 'n jsval \<Rightarrow> 'n page \<Rightarrow> 'n page \<times> completion" where
  "displayResults ops data p =
     (let p1 = p\<lparr>resultsDisplay := ''block''\<rparr> in
      case sentimentHtml ops data of
        Inl e \<Rightarrow> (p1, Throws e)
      | Inr s \<Rightarrow>
     (let p2 = p1\<lparr>sentimentResult := s\<rparr> in
      case bindE (translationHtml ops data) (toDOMString ops) of
        Inl e \<Rightarrow> (p2, Throws e)
      | Inr t \<Rightarrow>
     (let p3 = p2\<lparr>translationResult := t\<rparr> in
      case bindE (chatHtml ops data) (toDOMString ops) of
        Inl e \<Rightarrow> (p3, Throws e)
      | Inr c \<Rightarrow>
     (let p4 = p3\<lparr>chatResult := c\<rparr> in
      case getprop data ''performance'' of
        Inl e \<Rightarrow> (p4, Throws e)
      | Inr perf \<Rightarrow>
          (if truthy ops perf then emit (ConsoleLog ''Performance:'' perf) p4 else p4,
           Normal)))))"

definition analyzeRequest :: "string \<Rightarrow> string \<Rightarrow> string \<Rightarrow> request" where
  "analyzeRequest text sourceLang targetLang =
     \<lparr>url = ''/analyze'',
      httpMethod = ''POST'',
      headers = [(''Content-Type'', ''application/json'')],
      body = [(''text'', text), (''source_lang'', sourceLang), (''target_lang'', targetLang)]\<rparr>"

text \<open>Lines 19 to 65: the \<^verbatim>\<open>try\<close> block.\<close>

definition tryBlock ::
  "'n number_ops \<Rightarrow> (request \<Rightarrow> 'n response promise) \<Rightarrow> string \<Rightarrow> string \<Rightarrow> string \<Rightarrow>
     'n page \<Rightarrow> 'n page \<times> completion" where
  "tryBlock ops fetch text sourceLang targetLang p =
     (let req = analyzeRequest text sourceLang targetLang;
          p1 = emit (Fetch req) p
      in case fetch req of
           Pending \<Rightarrow> (p1, Suspended)
         | Rejected e \<Rightarrow> (p1, Throws e)
         | Fulfilled r \<Rightarrow>
             if \<not> ok r then
               (p1, Throws (Error (''HTTP error! status: '' @ decimal (status r))))
             else
               (let p2 = emit ReadJson p1
                in case json r of
                     Pending \<Rightarrow> (p2, Suspended)
                   | Rejected e \<Rightarrow> (p2, Throws e)
                   | Fulfilled data \<Rightarrow>
                       (case getprop data ''error'' of
                          Inl e \<Rightarrow> (p2, Throws e)
                        | Inr err \<Rightarrow>
                            if truthy ops err then
                              (case toStringJS ops err of
                                 Inl e \<Rightarrow> (p2, Throws e)
                               | Inr m \<Rightarrow> (p2, Throws (Error m)))
                            else displayResults ops data p2)))"

definition emptyTextMessage :: string where
  "emptyTextMessage = ''Please enter some text to analyze.''"

definition genericMessage :: string where
  "genericMessage = ''An error occurred while processing your request. Please try again.''"

text \<open>Lines 13 to 16, under the comment \<^verbatim>\<open>// Show loading state\<close>.\<close>

definition showLoadingState :: "'n page \<Rightarrow> 'n page" where
  "showLoadingState p = hideResults (hideError (p\<lparr>submitDisabled := True\<rparr>))"

text \<open>Lines 1 to 74: the listener, with its \<^verbatim>\<open>catch\<close> and \<^verbatim>\<open>finally\<close>.\<close>

definition handler ::
  "'n number_ops \<Rightarrow> (request \<Rightarrow> 'n response promise) \<Rightarrow> 'n page \<Rightarrow> 'n page \<times> completion" where
  "handler ops fetch p =
     (let p0 = emit PreventDefault p;
          text = textValue p0
      in if trim text = [] then (showError emptyTextMessage p0, Normal)
         else
           (let sourceLang = sourceLangValue p0;
                targetLang = targetLangValue p0;
                p1 = showLoadingState p0
            in case tryBlock ops fetch text sourceLang targetLang p1 of
                 (p2, Suspended) \<Rightarrow> (p2, Suspended)
               | (p2, Normal) \<Rightarrow> (p2\<lparr>submitDisabled := False\<rparr>, Normal)
               | (p2, Throws e) \<Rightarrow>
                   ((showError genericMessage (emit (ConsoleError ''Error:'' e) p2))
                      \<lparr>submitDisabled := False\<rparr>,
                    Normal)))"

subsection \<open>Example inputs\<close>

text \<open>
  Numbers for the examples: the non-negative integers up to \<open>2^53\<close>, which a double
  holds exactly and on which \<^verbatim>\<open>String\<close> gives the decimal digits and \<^verbatim>\<open>toFixed\<close>
  appends the zero fraction. Larger values of \<open>nat\<close> stand for no number of the source;
  the examples use \<open>1\<close> only.
\<close>

definition nat_ops :: "nat number_ops" where
  "nat_ops =
     \<lparr>num_falsy = (\<lambda>n. n = 0),
      num_toString = decimal,
      num_toFixed = (\<lambda>n digits.
        decimal n @ (if digits = 0 then [] else CHR ''.'' # replicate digits CHR ''0''))\<rparr>"

text \<open>A page at rest: some text entered, nothing shown, the button enabled.\<close>

definition idlePage :: "nat page" where
  "idlePage =
     \<lparr>textValue = ''good morning'', sourceLangValue = ''en'', targetLangValue = ''fr'',
      submitDisabled = False, errorDisplay = ''none'', errorMessage = [],
      resultsDisplay = ''none'', sentimentResult = [], translationResult = [],
      chatResult = [], events = []\<rparr>"

text \<open>Four networks: one answers with a status and a parsed body, one answers with a
  body that is not JSON, one is unreachable, one never answers.\<close>

definition serverReplies :: "nat \<Rightarrow> 'n jsval \<Rightarrow> request \<Rightarrow> 'n response promise" where
  "serverReplies code data req = Fulfilled \<lparr>status = code, json = Fulfilled data\<rparr>"

definition serverGarbles :: "nat \<Rightarrow> request \<Rightarrow> 'n response promise" where
  "serverGarbles code req = Fulfilled \<lparr>status = code, json = Rejected SyntaxError\<rparr>"

definition networkDown :: "request \<Rightarrow> 'n response promise" where
  "networkDown req = Rejected TypeError"

definition serverSilent :: "request \<Rightarrow> 'n response promise" where
  "serverSilent req = Pending"

section \<open>Properties\<close>

subsection \<open>How the listener completes\<close>

lemma trim_empty_iff: "trim s = [] \<longleftrightarrow> (\<forall>c\<in>set s. isWhiteSpace c)"
proof
  assume "trim s = []"
  then have all_rev: "\<forall>c\<in>set (dropWhile isWhiteSpace s). isWhiteSpace c"
    by (simp add: trim_def dropWhile_eq_Nil_conv)
  have "dropWhile isWhiteSpace s = []"
  proof (rule ccontr)
    assume ne: "dropWhile isWhiteSpace s \<noteq> []"
    then have "\<not> isWhiteSpace (hd (dropWhile isWhiteSpace s))"
      by (rule hd_dropWhile)
    moreover from ne have "hd (dropWhile isWhiteSpace s) \<in> set (dropWhile isWhiteSpace s)"
      by simp
    ultimately show False using all_rev by blast
  qed
  then show "\<forall>c\<in>set s. isWhiteSpace c"
    by (simp add: dropWhile_eq_Nil_conv)
next
  assume "\<forall>c\<in>set s. isWhiteSpace c"
  then show "trim s = []"
    by (auto simp add: trim_def dest: set_dropWhileD)
qed

lemma handler_blank:
  assumes "trim (textValue p) = []"
  shows "handler ops fetch p = (showError emptyTextMessage (emit PreventDefault p), Normal)"
  using assms by (simp add: handler_def emit_def Let_def)

lemma handler_catch:
  assumes "trim (textValue p) \<noteq> []"
    and "tryBlock ops fetch (textValue p) (sourceLangValue p) (targetLangValue p)
           (showLoadingState (emit PreventDefault p)) = (p2, Throws e)"
  shows "handler ops fetch p =
          ((showError genericMessage (emit (ConsoleError ''Error:'' e) p2))
             \<lparr>submitDisabled := False\<rparr>, Normal)"
  using assms by (simp add: handler_def emit_def Let_def)

lemma handler_finally:
  assumes "trim (textValue p) \<noteq> []"
    and "tryBlock ops fetch (textValue p) (sourceLangValue p) (targetLangValue p)
           (showLoadingState (emit PreventDefault p)) = (p2, Normal)"
  shows "handler ops fetch p = (p2\<lparr>submitDisabled := False\<rparr>, Normal)"
  using assms by (simp add: handler_def emit_def Let_def)

lemma handler_suspended:
  assumes "trim (textValue p) \<noteq> []"
    and "tryBlock ops fetch (textValue p) (sourceLangValue p) (targetLangValue p)
           (showLoadingState (emit PreventDefault p)) = (p2, Suspended)"
  shows "handler ops fetch p = (p2, Suspended)"
  using assms by (simp add: handler_def emit_def Let_def)

lemma tryBlock_rejected:
  assumes "fetch (analyzeRequest t s g) = Rejected e"
  shows "tryBlock ops fetch t s g p = (emit (Fetch (analyzeRequest t s g)) p, Throws e)"
  using assms by (simp add: tryBlock_def Let_def)

lemma tryBlock_pending:
  assumes "fetch (analyzeRequest t s g) = Pending"
  shows "tryBlock ops fetch t s g p = (emit (Fetch (analyzeRequest t s g)) p, Suspended)"
  using assms by (simp add: tryBlock_def Let_def)

lemma tryBlock_http_error:
  assumes "fetch (analyzeRequest t s g) = Fulfilled r" and "\<not> ok r"
  shows "tryBlock ops fetch t s g p =
          (emit (Fetch (analyzeRequest t s g)) p,
           Throws (Error (''HTTP error! status: '' @ decimal (status r))))"
  using assms by (simp add: tryBlock_def Let_def)

lemma tryBlock_json_rejected:
  assumes "fetch (analyzeRequest t s g) = Fulfilled r" and "ok r" and "json r = Rejected e"
  shows "tryBlock ops fetch t s g p =
          (emit ReadJson (emit (Fetch (analyzeRequest t s g)) p), Throws e)"
  using assms by (simp add: tryBlock_def Let_def)

lemma tryBlock_json_pending:
  assumes "fetch (analyzeRequest t s g) = Fulfilled r" and "ok r" and "json r = Pending"
  shows "tryBlock ops fetch t s g p =
          (emit ReadJson (emit (Fetch (analyzeRequest t s g)) p), Suspended)"
  using assms by (simp add: tryBlock_def Let_def)

lemma tryBlock_envelope_error:
  assumes "fetch (analyzeRequest t s g) = Fulfilled r" and "ok r" and "json r = Fulfilled data"
    and "getprop data ''error'' = Inr err" and "truthy ops err"
  shows "tryBlock ops fetch t s g p =
          (emit ReadJson (emit (Fetch (analyzeRequest t s g)) p),
           Throws (case toStringJS ops err of Inl e \<Rightarrow> e | Inr m \<Rightarrow> Error m))"
  using assms by (simp add: tryBlock_def Let_def split: sum.splits)

lemma tryBlock_display:
  assumes "fetch (analyzeRequest t s g) = Fulfilled r" and "ok r" and "json r = Fulfilled data"
    and "getprop data ''error'' = Inr err" and "\<not> truthy ops err"
  shows "tryBlock ops fetch t s g p =
          displayResults ops data (emit ReadJson (emit (Fetch (analyzeRequest t s g)) p))"
  using assms by (simp add: tryBlock_def Let_def)

lemma displayResults_keeps:
  "errorDisplay (fst (displayResults ops data p)) = errorDisplay p"
  "errorMessage (fst (displayResults ops data p)) = errorMessage p"
  "submitDisabled (fst (displayResults ops data p)) = submitDisabled p"
  by (simp_all add: displayResults_def Let_def emit_def split: sum.split)

lemma displayResults_completion:
  "snd (displayResults ops data p) \<noteq> Suspended"
  "snd (displayResults ops data p) = Normal \<longrightarrow>
     resultsDisplay (fst (displayResults ops data p)) = ''block''"
  by (simp_all add: displayResults_def Let_def emit_def split: sum.split)

lemma tryBlock_keeps:
  "errorDisplay (fst (tryBlock ops fetch t s g p)) = errorDisplay p"
  "errorMessage (fst (tryBlock ops fetch t s g p)) = errorMessage p"
  "submitDisabled (fst (tryBlock ops fetch t s g p)) = submitDisabled p"
  by (simp_all add: tryBlock_def Let_def emit_def displayResults_keeps
        split: promise.split sum.split)

lemma tryBlock_completion:
  "snd (tryBlock ops fetch t s g p) = Normal \<longrightarrow>
     resultsDisplay (fst (tryBlock ops fetch t s g p)) = ''block''"
  "snd (tryBlock ops fetch t s g p) = Suspended \<longrightarrow>
     resultsDisplay (fst (tryBlock ops fetch t s g p)) = resultsDisplay p"
  by (simp_all add: tryBlock_def Let_def emit_def displayResults_completion
        split: promise.split sum.split)


lemma getprop_defined:
  assumes "getprop data k = Inr v"
  shows "\<exists>w. getprop data k' = Inr w"
  using assms by (cases data) simp_all

lemma sentimentHtml_failed:
  assumes "getprop data ''sentiment'' = Inr (JObj sf)"
    and "truthy ops (field sf ''error'')"
    and "toStringJS ops (field sf ''error'') = Inr x"
  shows "sentimentHtml ops data = Inr (errorSpan x)"
  using assms by (simp add: sentimentHtml_def bindE_def)

lemma sentimentHtml_succeeded:
  assumes "getprop data ''sentiment'' = Inr (JObj sf)"
    and "\<not> truthy ops (field sf ''error'')"
    and "toStringJS ops (field sf ''sentiment'') = Inr l"
    and "field sf ''score'' = JNum n"
  shows "sentimentHtml ops data =
          Inr (''Sentiment: '' @ l @ '' (Score: '' @ num_toFixed ops n 2 @ '')'')"
  using assms by (simp add: sentimentHtml_def bindE_def)

lemma translationHtml_failed:
  assumes "getprop data ''translation'' = Inr (JObj tf)"
    and "truthy ops (field tf ''error'')"
    and "toStringJS ops (field tf ''error'') = Inr x"
  shows "bindE (translationHtml ops data) (toDOMString ops) = Inr (errorSpan x)"
  using assms by (simp add: translationHtml_def bindE_def)

lemma translationHtml_succeeded:
  assumes "getprop data ''translation'' = Inr (JObj tf)"
    and "\<not> truthy ops (field tf ''error'')"
    and "toDOMString ops (field tf ''text'') = Inr t"
  shows "bindE (translationHtml ops data) (toDOMString ops) = Inr t"
  using assms by (simp add: translationHtml_def bindE_def)

lemma chatHtml_failed:
  assumes "getprop data ''chat'' = Inr (JObj cf)"
    and "truthy ops (field cf ''error'')"
    and "toStringJS ops (field cf ''error'') = Inr x"
  shows "bindE (chatHtml ops data) (toDOMString ops) = Inr (errorSpan x)"
  using assms by (simp add: chatHtml_def bindE_def)

lemma chatHtml_succeeded:
  assumes "getprop data ''chat'' = Inr (JObj cf)"
    and "\<not> truthy ops (field cf ''error'')"
    and "toDOMString ops (field cf ''response'') = Inr c"
  shows "bindE (chatHtml ops data) (toDOMString ops) = Inr c"
  using assms by (simp add: chatHtml_def bindE_def)

lemma displayResults_rendered:
  assumes "sentimentHtml ops data = Inr S"
    and "bindE (translationHtml ops data) (toDOMString ops) = Inr T"
    and "bindE (chatHtml ops data) (toDOMString ops) = Inr C"
    and "getprop data ''performance'' = Inr perf"
  shows "displayResults ops data q =
          ((if truthy ops perf then emit (ConsoleLog ''Performance:'' perf) else id)
             (q\<lparr>resultsDisplay := ''block'', sentimentResult := S,
                translationResult := T, chatResult := C\<rparr>), Normal)"
  using assms by (simp add: displayResults_def Let_def)

lemma handler_rendered:
  assumes nonblank: "trim (textValue p) \<noteq> []"
    and fetch: "fetch (analyzeRequest (textValue p) (sourceLangValue p) (targetLangValue p)) =
           Fulfilled r"
    and ok: "ok r"
    and json: "json r = Fulfilled data"
    and err: "getprop data ''error'' = Inr err" "\<not> truthy ops err"
    and S: "sentimentHtml ops data = Inr S"
    and T: "bindE (translationHtml ops data) (toDOMString ops) = Inr T"
    and C: "bindE (chatHtml ops data) (toDOMString ops) = Inr C"
  shows "snd (handler ops fetch p) = Normal"
    and "submitDisabled (fst (handler ops fetch p)) = False"
    and "errorDisplay (fst (handler ops fetch p)) = ''none''"
    and "errorMessage (fst (handler ops fetch p)) = errorMessage p"
    and "resultsDisplay (fst (handler ops fetch p)) = ''block''"
    and "sentimentResult (fst (handler ops fetch p)) = S"
    and "translationResult (fst (handler ops fetch p)) = T"
    and "chatResult (fst (handler ops fetch p)) = C"
proof -
  from err(1) obtain perf where perf: "getprop data ''performance'' = Inr perf"
    using getprop_defined by blast
  let ?q = "emit ReadJson (emit (Fetch (analyzeRequest (textValue p) (sourceLangValue p)
              (targetLangValue p))) (showLoadingState (emit PreventDefault p)))"
  let ?p2 = "(if truthy ops perf then emit (ConsoleLog ''Performance:'' perf) else id)
             (?q\<lparr>resultsDisplay := ''block'', sentimentResult := S,
                translationResult := T, chatResult := C\<rparr>)"
  have "tryBlock ops fetch (textValue p) (sourceLangValue p) (targetLangValue p)
          (showLoadingState (emit PreventDefault p)) = (?p2, Normal)"
    using tryBlock_display [where fetch = fetch, OF fetch ok json err] displayResults_rendered [OF S T C perf]
    by simp
  then have run: "handler ops fetch p = (?p2\<lparr>submitDisabled := False\<rparr>, Normal)"
    by (rule handler_finally [OF nonblank])
  show "snd (handler ops fetch p) = Normal"
    and "submitDisabled (fst (handler ops fetch p)) = False"
    and "errorDisplay (fst (handler ops fetch p)) = ''none''"
    and "errorMessage (fst (handler ops fetch p)) = errorMessage p"
    and "resultsDisplay (fst (handler ops fetch p)) = ''block''"
    and "sentimentResult (fst (handler ops fetch p)) = S"
    and "translationResult (fst (handler ops fetch p)) = T"
    and "chatResult (fst (handler ops fetch p)) = C"
    by (simp_all add: run emit_def showLoadingState_def hideError_def hideResults_def)
qed


lemma nat_ops_examples:
  "num_toFixed nat_ops (Suc 0) 2 = ''1.00''"
  "num_falsy nat_ops (Suc 0) = False"
  by code_simp+

lemma displayResults_regions:
  "sentimentResult (fst (displayResults ops data q)) =
     (case sentimentHtml ops data of Inl e \<Rightarrow> sentimentResult q | Inr s \<Rightarrow> s)"
  "translationResult (fst (displayResults ops data q)) =
     (case sentimentHtml ops data of
        Inl e \<Rightarrow> translationResult q
      | Inr s \<Rightarrow>
          (case bindE (translationHtml ops data) (toDOMString ops) of
             Inl e \<Rightarrow> translationResult q
           | Inr t \<Rightarrow> t))"
  by (simp_all add: displayResults_def Let_def emit_def split: sum.split)

lemma displayResults_throws:
  assumes "sentimentHtml ops data = Inl e1
         \<or> bindE (translationHtml ops data) (toDOMString ops) = Inl e2
         \<or> bindE (chatHtml ops data) (toDOMString ops) = Inl e3"
  shows "\<exists>e. snd (displayResults ops data q) = Throws e"
    and "chatResult (fst (displayResults ops data q)) = chatResult q"
  using assms by (auto simp add: displayResults_def Let_def split: sum.split)

lemma missing_slot_throws:
  "getprop data ''sentiment'' = Inr JUndefined \<Longrightarrow> sentimentHtml ops data = Inl TypeError"
  "getprop data ''translation'' = Inr JUndefined \<Longrightarrow>
     bindE (translationHtml ops data) (toDOMString ops) = Inl TypeError"
  "getprop data ''chat'' = Inr JUndefined \<Longrightarrow>
     bindE (chatHtml ops data) (toDOMString ops) = Inl TypeError"
  by (simp_all add: sentimentHtml_def translationHtml_def chatHtml_def bindE_def)

lemma sentimentHtml_score_not_number:
  assumes "getprop data ''sentiment'' = Inr (JObj sf)"
    and "\<not> truthy ops (field sf ''error'')"
    and "\<forall>n. field sf ''score'' \<noteq> JNum n"
  shows "\<exists>e. sentimentHtml ops data = Inl e"
  using assms
  by (cases "field sf ''score''")
    (simp_all add: sentimentHtml_def bindE_def split: sum.split)

lemma handler_never_throws: "snd (handler ops fetch p) \<noteq> Throws e"
  by (simp add: handler_def Let_def split: prod.split completion.split)

subsection \<open>Runs on the example inputs\<close>

lemma garbled_body_example:
  "snd (handler nat_ops (serverGarbles 200) idlePage) = Normal"
  "errorMessage (fst (handler nat_ops (serverGarbles 200) idlePage)) =
     ''An error occurred while processing your request. Please try again.''"
  "resultsDisplay (fst (handler nat_ops (serverGarbles 200) idlePage)) = ''none''"
  "events (fst (handler nat_ops (serverGarbles 200) idlePage)) =
     [PreventDefault, Fetch (analyzeRequest ''good morning'' ''en'' ''fr''), ReadJson,
      ConsoleError ''Error:'' SyntaxError]"
  by (simp_all add: handler_def tryBlock_def Let_def serverGarbles_def ok_def idlePage_def
        trim_def isWhiteSpace_def emit_def showError_def showLoadingState_def hideError_def
        hideResults_def genericMessage_def)

lemma silent_server_example:
  "snd (handler nat_ops serverSilent idlePage) = Suspended"
  "submitDisabled (fst (handler nat_ops serverSilent idlePage)) = True"
  "errorDisplay (fst (handler nat_ops serverSilent idlePage)) = ''none''"
  "resultsDisplay (fst (handler nat_ops serverSilent idlePage)) = ''none''"
  by (simp_all add: handler_def tryBlock_def Let_def serverSilent_def idlePage_def
        trim_def isWhiteSpace_def emit_def showLoadingState_def hideError_def hideResults_def)

subsection \<open>Local validation\<close>

text \<open>
  C3. When the text field is empty or holds white space only, the listener shows
  ``Please enter some text to analyze.'' in the banner and returns: the only effect
  that leaves the page is \<^verbatim>\<open>preventDefault\<close>, so no request is sent, whatever the
  network would have answered.
\<close>

theorem blank_text_no_request:
  assumes "\<forall>c\<in>set (textValue p). isWhiteSpace c"
  shows "snd (handler ops fetch p) = Normal
       \<and> errorMessage (fst (handler ops fetch p)) = ''Please enter some text to analyze.''
       \<and> errorDisplay (fst (handler ops fetch p)) = ''block''
       \<and> resultsDisplay (fst (handler ops fetch p)) = ''none''
       \<and> events (fst (handler ops fetch p)) = events p @ [PreventDefault]"
proof -
  from assms have "trim (textValue p) = []"
    by (simp add: trim_empty_iff)
  then have "handler ops fetch p = (showError emptyTextMessage (emit PreventDefault p), Normal)"
    by (rule handler_blank)
  then show ?thesis
    by (simp add: showError_def emit_def emptyTextMessage_def)
qed

theorem blank_text_no_request_witness:
  "trim (textValue (idlePage\<lparr>textValue := [CHR '' '', CHR 0x09, CHR '' '']\<rparr>)) = []
   \<and> errorMessage (fst (handler nat_ops (serverReplies 200 JNull)
         (idlePage\<lparr>textValue := [CHR '' '', CHR 0x09, CHR '' '']\<rparr>)))
       = ''Please enter some text to analyze.''
   \<and> events (fst (handler nat_ops (serverReplies 200 JNull)
         (idlePage\<lparr>textValue := [CHR '' '', CHR 0x09, CHR '' '']\<rparr>)))
       = [PreventDefault]"
proof -
  have blank: "\<forall>c\<in>set (textValue (idlePage\<lparr>textValue := [CHR '' '', CHR 0x09, CHR '' '']\<rparr>)).
      isWhiteSpace c"
    by (simp add: isWhiteSpace_def)
  from blank_text_no_request [where ops = nat_ops and fetch = "serverReplies 200 JNull", OF blank]
  show ?thesis
    using blank by (simp add: idlePage_def trim_empty_iff)
qed

subsection \<open>Failures of the request\<close>

text \<open>
  C4. When the response has a status outside 200 to 299, the listener throws before it
  calls \<^verbatim>\<open>response.json()\<close>: the effects of the run are \<^verbatim>\<open>preventDefault\<close>, the
  request and the logged error, with no read of the body; the three result regions
  keep their content, and the banner shows the generic message with the results hidden.
\<close>

theorem http_failure_body_not_read:
  assumes nonblank: "trim (textValue p) \<noteq> []"
    and fetch: "fetch (analyzeRequest (textValue p) (sourceLangValue p) (targetLangValue p)) =
           Fulfilled r"
    and status: "status r < 200 \<or> 299 < status r"
  shows "snd (handler ops fetch p) = Normal
       \<and> events (fst (handler ops fetch p)) =
           events p @
             [PreventDefault,
              Fetch (analyzeRequest (textValue p) (sourceLangValue p) (targetLangValue p)),
              ConsoleError ''Error:'' (Error (''HTTP error! status: '' @ decimal (status r)))]
       \<and> errorMessage (fst (handler ops fetch p)) =
           ''An error occurred while processing your request. Please try again.''
       \<and> errorDisplay (fst (handler ops fetch p)) = ''block''
       \<and> resultsDisplay (fst (handler ops fetch p)) = ''none''
       \<and> sentimentResult (fst (handler ops fetch p)) = sentimentResult p
       \<and> translationResult (fst (handler ops fetch p)) = translationResult p
       \<and> chatResult (fst (handler ops fetch p)) = chatResult p"
proof -
  from status have "\<not> ok r"
    by (auto simp add: ok_def)
  with fetch have "tryBlock ops fetch (textValue p) (sourceLangValue p) (targetLangValue p)
      (showLoadingState (emit PreventDefault p)) =
    (emit (Fetch (analyzeRequest (textValue p) (sourceLangValue p) (targetLangValue p)))
       (showLoadingState (emit PreventDefault p)),
     Throws (Error (''HTTP error! status: '' @ decimal (status r))))"
    by (rule tryBlock_http_error)
  from handler_catch [OF nonblank this] show ?thesis
    by (simp add: showError_def emit_def showLoadingState_def hideError_def hideResults_def
          genericMessage_def)
qed

theorem http_failure_body_not_read_witness:
  "events (fst (handler nat_ops
       (serverReplies 500 (JObj [(''sentiment'', JObj [(''error'', JStr ''X'')])])) idlePage)) =
     [PreventDefault,
      Fetch (analyzeRequest ''good morning'' ''en'' ''fr''),
      ConsoleError ''Error:'' (Error ''HTTP error! status: 500'')]
   \<and> errorMessage (fst (handler nat_ops
       (serverReplies 500 (JObj [(''sentiment'', JObj [(''error'', JStr ''X'')])])) idlePage)) =
     ''An error occurred while processing your request. Please try again.''
   \<and> sentimentResult (fst (handler nat_ops
       (serverReplies 500 (JObj [(''sentiment'', JObj [(''error'', JStr ''X'')])])) idlePage)) = []"
proof -
  have nonblank: "trim (textValue idlePage) \<noteq> []"
    by (simp add: idlePage_def trim_def isWhiteSpace_def)
  have fetch: "serverReplies 500 (JObj [(''sentiment'', JObj [(''error'', JStr ''X'')])])
      (analyzeRequest (textValue idlePage) (sourceLangValue idlePage) (targetLangValue idlePage)) =
    Fulfilled \<lparr>status = 500, json = Fulfilled (JObj [(''sentiment'', JObj [(''error'', JStr ''X'')])])\<rparr>"
    by (simp add: serverReplies_def)
  have status: "status \<lparr>status = 500,
      json = Fulfilled (JObj [(''sentiment'', JObj [(''error'', JStr ''X'')])])\<rparr> < 200
    \<or> 299 < status \<lparr>status = 500,
      json = Fulfilled (JObj [(''sentiment'', JObj [(''error'', JStr ''X'')])])\<rparr>"
    by simp
  have digits: "decimal 500 = ''500''"
    by code_simp
  from http_failure_body_not_read [where ops = nat_ops
      and fetch = "serverReplies 500 (JObj [(''sentiment'', JObj [(''error'', JStr ''X'')])])",
      OF nonblank fetch status]
  show ?thesis
    by (simp add: idlePage_def digits)
qed

text \<open>
  C5. Whenever the \<^verbatim>\<open>try\<close> block throws (a rejected \<^verbatim>\<open>fetch\<close>, a rejected
  \<^verbatim>\<open>response.json()\<close>, one of the two \<^verbatim>\<open>throw\<close> statements, or a \<^verbatim>\<open>TypeError\<close>
  while the results are written), the listener logs the error, shows ``An error occurred
  while processing your request. Please try again.'' in the banner and hides the results
  region, also when the block had revealed it before it threw.
\<close>

theorem thrown_error_generic_banner:
  assumes nonblank: "trim (textValue p) \<noteq> []"
    and throws: "tryBlock ops fetch (textValue p) (sourceLangValue p) (targetLangValue p)
           (showLoadingState (emit PreventDefault p)) = (p2, Throws e)"
  shows "snd (handler ops fetch p) = Normal
       \<and> errorMessage (fst (handler ops fetch p)) =
           ''An error occurred while processing your request. Please try again.''
       \<and> errorDisplay (fst (handler ops fetch p)) = ''block''
       \<and> resultsDisplay (fst (handler ops fetch p)) = ''none''
       \<and> events (fst (handler ops fetch p)) = events p2 @ [ConsoleError ''Error:'' e]"
  using handler_catch [OF nonblank throws]
  by (simp add: showError_def emit_def genericMessage_def)

theorem thrown_error_generic_banner_witness:
  "tryBlock nat_ops networkDown (textValue idlePage) (sourceLangValue idlePage)
       (targetLangValue idlePage) (showLoadingState (emit PreventDefault idlePage)) =
     (emit (Fetch (analyzeRequest ''good morning'' ''en'' ''fr''))
        (showLoadingState (emit PreventDefault idlePage)), Throws TypeError)
   \<and> errorMessage (fst (handler nat_ops networkDown idlePage)) =
       ''An error occurred while processing your request. Please try again.''
   \<and> errorDisplay (fst (handler nat_ops networkDown idlePage)) = ''block''
   \<and> resultsDisplay (fst (handler nat_ops networkDown idlePage)) = ''none''"
proof -
  have nonblank: "trim (textValue idlePage) \<noteq> []"
    by (simp add: idlePage_def trim_def isWhiteSpace_def)
  have throws: "tryBlock nat_ops networkDown (textValue idlePage) (sourceLangValue idlePage)
       (targetLangValue idlePage) (showLoadingState (emit PreventDefault idlePage)) =
     (emit (Fetch (analyzeRequest ''good morning'' ''en'' ''fr''))
        (showLoadingState (emit PreventDefault idlePage)), Throws TypeError)"
    by (simp add: tryBlock_rejected networkDown_def idlePage_def)
  from thrown_error_generic_banner [OF nonblank throws] show ?thesis
    using throws by simp
qed

text \<open>
  C1, as the code has it. When a response with a status from 200 to 299 carries an
  envelope whose top-level \<^verbatim>\<open>error\<close> is truthy, the listener throws
  \<^verbatim>\<open>new Error(data.error)\<close> and its \<^verbatim>\<open>catch\<close> block handles it like every other
  error: the server's text goes to \<^verbatim>\<open>console.error\<close>, the banner shows the generic
  message, the results region stays hidden and no result region is written.
\<close>

theorem envelope_error_generic_banner:
  assumes nonblank: "trim (textValue p) \<noteq> []"
    and fetch: "fetch (analyzeRequest (textValue p) (sourceLangValue p) (targetLangValue p)) =
           Fulfilled r"
    and ok: "ok r"
    and json: "json r = Fulfilled data"
    and err: "getprop data ''error'' = Inr err"
    and truthy: "truthy ops err"
  shows "snd (handler ops fetch p) = Normal
       \<and> errorMessage (fst (handler ops fetch p)) =
           ''An error occurred while processing your request. Please try again.''
       \<and> errorDisplay (fst (handler ops fetch p)) = ''block''
       \<and> resultsDisplay (fst (handler ops fetch p)) = ''none''
       \<and> sentimentResult (fst (handler ops fetch p)) = sentimentResult p
       \<and> translationResult (fst (handler ops fetch p)) = translationResult p
       \<and> chatResult (fst (handler ops fetch p)) = chatResult p
       \<and> events (fst (handler ops fetch p)) =
           events p @
             [PreventDefault,
              Fetch (analyzeRequest (textValue p) (sourceLangValue p) (targetLangValue p)),
              ReadJson,
              ConsoleError ''Error:''
                (case toStringJS ops err of Inl e \<Rightarrow> e | Inr m \<Rightarrow> Error m)]"
  using handler_catch [OF nonblank
      tryBlock_envelope_error [where fetch = fetch, OF fetch ok json err truthy]]
  by (simp add: showError_def emit_def showLoadingState_def hideError_def hideResults_def
        genericMessage_def)

theorem envelope_error_generic_banner_witness:
  "errorMessage (fst (handler nat_ops
       (serverReplies 200 (JObj [(''error'', JStr ''bad input'')])) idlePage)) =
     ''An error occurred while processing your request. Please try again.''
   \<and> resultsDisplay (fst (handler nat_ops
       (serverReplies 200 (JObj [(''error'', JStr ''bad input'')])) idlePage)) = ''none''
   \<and> events (fst (handler nat_ops
       (serverReplies 200 (JObj [(''error'', JStr ''bad input'')])) idlePage)) =
     [PreventDefault, Fetch (analyzeRequest ''good morning'' ''en'' ''fr''), ReadJson,
      ConsoleError ''Error:'' (Error ''bad input'')]"
proof -
  have nonblank: "trim (textValue idlePage) \<noteq> []"
    by (simp add: idlePage_def trim_def isWhiteSpace_def)
  have fetch: "serverReplies 200 (JObj [(''error'', JStr ''bad input'')])
      (analyzeRequest (textValue idlePage) (sourceLangValue idlePage) (targetLangValue idlePage)) =
    Fulfilled \<lparr>status = 200, json = Fulfilled (JObj [(''error'', JStr ''bad input'')])\<rparr>"
    by (simp add: serverReplies_def)
  have ok: "ok \<lparr>status = 200, json = Fulfilled (JObj [(''error'', JStr ''bad input'')])\<rparr>"
    by (simp add: ok_def)
  have json: "json \<lparr>status = 200, json = Fulfilled (JObj [(''error'', JStr ''bad input'')])\<rparr> =
      Fulfilled (JObj [(''error'', JStr ''bad input'')])"
    by simp
  have err: "getprop (JObj [(''error'', JStr ''bad input'')]) ''error'' = Inr (JStr ''bad input'')"
    by (simp add: field_def)
  have truthy: "truthy nat_ops (JStr ''bad input'')"
    by simp
  from envelope_error_generic_banner [where ops = nat_ops
      and fetch = "serverReplies 200 (JObj [(''error'', JStr ''bad input'')])",
      OF nonblank fetch ok json err truthy]
  show ?thesis
    by (simp add: idlePage_def)
qed

text \<open>
  The banner does not show the server's text: for the envelope
  \<^verbatim>\<open>{"error": "bad input"}\<close> it is not ``bad input''.
\<close>

theorem envelope_error_text_not_in_banner:
  "errorMessage (fst (handler nat_ops
       (serverReplies 200 (JObj [(''error'', JStr ''bad input'')])) idlePage)) \<noteq> ''bad input''"
  by (simp add: handler_def tryBlock_def Let_def serverReplies_def ok_def idlePage_def
        trim_def isWhiteSpace_def emit_def showError_def showLoadingState_def hideError_def
        hideResults_def field_def analyzeRequest_def genericMessage_def)

subsection \<open>The submit control and the two display flags\<close>

text \<open>
  C6, as the code has it. The \<^verbatim>\<open>finally\<close> block enables the submit control after
  every run that passed validation and completed. A run that fails validation returns
  at line 7, before the control is disabled and outside the \<^verbatim>\<open>try\<close> statement, and
  leaves the control as it found it.
\<close>

theorem submit_control_after_run:
  assumes completed: "snd (handler ops fetch p) = Normal"
  shows "submitDisabled (fst (handler ops fetch p)) =
           (trim (textValue p) = [] \<and> submitDisabled p)"
proof (cases "trim (textValue p) = []")
  case True
  then show ?thesis
    by (simp add: handler_blank showError_def emit_def)
next
  case False
  obtain p2 c where run:
    "tryBlock ops fetch (textValue p) (sourceLangValue p) (targetLangValue p)
       (showLoadingState (emit PreventDefault p)) = (p2, c)"
    by (cases "tryBlock ops fetch (textValue p) (sourceLangValue p) (targetLangValue p)
       (showLoadingState (emit PreventDefault p))")
  show ?thesis
  proof (cases c)
    case Normal
    with run False show ?thesis
      by (simp add: handler_finally)
  next
    case (Throws e)
    with run False show ?thesis
      by (simp add: handler_catch)
  next
    case Suspended
    with run False completed show ?thesis
      by (simp add: handler_suspended)
  qed
qed

theorem submit_control_after_run_witness:
  "snd (handler nat_ops networkDown idlePage) = Normal
   \<and> submitDisabled (fst (handler nat_ops networkDown idlePage)) = False"
proof -
  have completed: "snd (handler nat_ops networkDown idlePage) = Normal"
    by (simp add: handler_def tryBlock_def Let_def networkDown_def idlePage_def
          trim_def isWhiteSpace_def)
  from submit_control_after_run [OF completed] show ?thesis
    using completed by (simp add: idlePage_def trim_def isWhiteSpace_def)
qed

text \<open>
  A submission with blank text that finds the control disabled leaves it disabled.
\<close>

theorem submit_control_left_disabled:
  "snd (handler nat_ops networkDown
         (idlePage\<lparr>textValue := ''   '', submitDisabled := True\<rparr>)) = Normal
   \<and> submitDisabled (fst (handler nat_ops networkDown
         (idlePage\<lparr>textValue := ''   '', submitDisabled := True\<rparr>))) = True"
  by (simp add: handler_def Let_def idlePage_def trim_def isWhiteSpace_def emit_def
        showError_def)

text \<open>
  C10. However a run ends, and also while it waits for the network, the banner or the
  results region has \<^verbatim>\<open>display\<close> \<^verbatim>\<open>none\<close>: \<^verbatim>\<open>showError\<close> hides the results when it
  shows the banner, and the \<^verbatim>\<open>try\<close> block, which reveals the results, starts after
  \<^verbatim>\<open>hideError\<close> and never touches the banner.
\<close>

theorem banner_and_results_not_both_shown:
  "errorDisplay (fst (handler ops fetch p)) = ''none''
   \<or> resultsDisplay (fst (handler ops fetch p)) = ''none''"
proof (cases "trim (textValue p) = []")
  case True
  then show ?thesis
    by (simp add: handler_blank showError_def emit_def)
next
  case False
  let ?start = "showLoadingState (emit PreventDefault p)"
  obtain p2 c where run:
    "tryBlock ops fetch (textValue p) (sourceLangValue p) (targetLangValue p) ?start = (p2, c)"
    by (cases "tryBlock ops fetch (textValue p) (sourceLangValue p) (targetLangValue p) ?start")
  have "errorDisplay (fst (tryBlock ops fetch (textValue p) (sourceLangValue p)
          (targetLangValue p) ?start)) = errorDisplay ?start"
    by (rule tryBlock_keeps)
  with run have hidden: "errorDisplay p2 = ''none''"
    by (simp add: showLoadingState_def hideError_def hideResults_def emit_def)
  show ?thesis
  proof (cases c)
    case Normal
    with run False hidden show ?thesis
      by (simp add: handler_finally)
  next
    case (Throws e)
    with run False show ?thesis
      by (simp add: handler_catch showError_def)
  next
    case Suspended
    with run False hidden show ?thesis
      by (simp add: handler_suspended)
  qed
qed

subsection \<open>Writing the three result regions\<close>

text \<open>
  C9. When the envelope has no truthy top-level \<^verbatim>\<open>error\<close> and one of
  \<^verbatim>\<open>data.sentiment\<close>, \<^verbatim>\<open>data.translation\<close>, \<^verbatim>\<open>data.chat\<close> is \<^verbatim>\<open>undefined\<close>,
  reading \<^verbatim>\<open>.error\<close> on it throws, and the run ends with the generic banner and the
  results hidden. A region written before the throw keeps its new content: the
  sentiment region when the sentiment slot rendered, the translation region when both
  the sentiment and the translation slot rendered; the chat region is never written.
\<close>

theorem missing_slot_generic_banner:
  assumes nonblank: "trim (textValue p) \<noteq> []"
    and fetch: "fetch (analyzeRequest (textValue p) (sourceLangValue p) (targetLangValue p)) =
           Fulfilled r"
    and ok: "ok r"
    and json: "json r = Fulfilled data"
    and err: "getprop data ''error'' = Inr err"
    and falsy: "\<not> truthy ops err"
    and missing: "getprop data ''sentiment'' = Inr JUndefined
         \<or> getprop data ''translation'' = Inr JUndefined
         \<or> getprop data ''chat'' = Inr JUndefined"
  shows "snd (handler ops fetch p) = Normal
       \<and> errorMessage (fst (handler ops fetch p)) =
           ''An error occurred while processing your request. Please try again.''
       \<and> errorDisplay (fst (handler ops fetch p)) = ''block''
       \<and> resultsDisplay (fst (handler ops fetch p)) = ''none''
       \<and> sentimentResult (fst (handler ops fetch p)) =
           (case sentimentHtml ops data of Inl e \<Rightarrow> sentimentResult p | Inr s \<Rightarrow> s)
       \<and> translationResult (fst (handler ops fetch p)) =
           (case sentimentHtml ops data of
              Inl e \<Rightarrow> translationResult p
            | Inr s \<Rightarrow>
                (case bindE (translationHtml ops data) (toDOMString ops) of
                   Inl e \<Rightarrow> translationResult p
                 | Inr t \<Rightarrow> t))
       \<and> chatResult (fst (handler ops fetch p)) = chatResult p"
proof -
  let ?req = "analyzeRequest (textValue p) (sourceLangValue p) (targetLangValue p)"
  let ?q = "emit ReadJson (emit (Fetch ?req) (showLoadingState (emit PreventDefault p)))"
  from missing have thrown:
    "sentimentHtml ops data = Inl TypeError
     \<or> bindE (translationHtml ops data) (toDOMString ops) = Inl TypeError
     \<or> bindE (chatHtml ops data) (toDOMString ops) = Inl TypeError"
    using missing_slot_throws [of data ops] by blast
  then obtain e where e: "snd (displayResults ops data ?q) = Throws e"
    using displayResults_throws(1) by blast
  have block: "tryBlock ops fetch (textValue p) (sourceLangValue p) (targetLangValue p)
      (showLoadingState (emit PreventDefault p)) = displayResults ops data ?q"
    by (rule tryBlock_display [where fetch = fetch, OF fetch ok json err falsy])
  with e have "tryBlock ops fetch (textValue p) (sourceLangValue p) (targetLangValue p)
      (showLoadingState (emit PreventDefault p)) = (fst (displayResults ops data ?q), Throws e)"
    by (metis prod.collapse)
  from handler_catch [OF nonblank this] show ?thesis
    using displayResults_throws(2) [OF thrown, of ?q]
    by (simp add: showError_def emit_def genericMessage_def displayResults_regions
          showLoadingState_def hideError_def hideResults_def split: sum.split)
qed


theorem missing_slot_generic_banner_witness:
  "errorMessage (fst (handler nat_ops
       (serverReplies 200 (JObj
          [(''sentiment'', JObj [(''sentiment'', JStr ''positive''), (''score'', JNum 1)]),
           (''chat'', JObj [(''response'', JStr ''hello'')])])) idlePage)) =
     ''An error occurred while processing your request. Please try again.''
   \<and> resultsDisplay (fst (handler nat_ops
       (serverReplies 200 (JObj
          [(''sentiment'', JObj [(''sentiment'', JStr ''positive''), (''score'', JNum 1)]),
           (''chat'', JObj [(''response'', JStr ''hello'')])])) idlePage)) = ''none''
   \<and> sentimentResult (fst (handler nat_ops
       (serverReplies 200 (JObj
          [(''sentiment'', JObj [(''sentiment'', JStr ''positive''), (''score'', JNum 1)]),
           (''chat'', JObj [(''response'', JStr ''hello'')])])) idlePage)) =
     ''Sentiment: positive (Score: 1.00)''
   \<and> translationResult (fst (handler nat_ops
       (serverReplies 200 (JObj
          [(''sentiment'', JObj [(''sentiment'', JStr ''positive''), (''score'', JNum 1)]),
           (''chat'', JObj [(''response'', JStr ''hello'')])])) idlePage)) = []
   \<and> chatResult (fst (handler nat_ops
       (serverReplies 200 (JObj
          [(''sentiment'', JObj [(''sentiment'', JStr ''positive''), (''score'', JNum 1)]),
           (''chat'', JObj [(''response'', JStr ''hello'')])])) idlePage)) = []"
proof -
  let ?data = "JObj
          [(''sentiment'', JObj [(''sentiment'', JStr ''positive''), (''score'', JNum (1::nat))]),
           (''chat'', JObj [(''response'', JStr ''hello'')])]"
  have nonblank: "trim (textValue idlePage) \<noteq> []"
    by (simp add: idlePage_def trim_def isWhiteSpace_def)
  have fetch: "serverReplies 200 ?data
      (analyzeRequest (textValue idlePage) (sourceLangValue idlePage) (targetLangValue idlePage)) =
    Fulfilled \<lparr>status = 200, json = Fulfilled ?data\<rparr>"
    by (simp add: serverReplies_def)
  have ok: "ok \<lparr>status = 200, json = Fulfilled ?data\<rparr>"
    by (simp add: ok_def)
  have json: "json \<lparr>status = 200, json = Fulfilled ?data\<rparr> = Fulfilled ?data"
    by simp
  have err: "getprop ?data ''error'' = Inr JUndefined"
    by (simp add: field_def)
  have falsy: "\<not> truthy nat_ops JUndefined"
    by simp
  have missing: "getprop ?data ''sentiment'' = Inr JUndefined
         \<or> getprop ?data ''translation'' = Inr JUndefined
         \<or> getprop ?data ''chat'' = Inr JUndefined"
    by (simp add: field_def)
  have sentiment: "sentimentHtml nat_ops ?data = Inr ''Sentiment: positive (Score: 1.00)''"
    by (simp add: sentimentHtml_def bindE_def field_def nat_ops_examples)
  from missing_slot_generic_banner [where ops = nat_ops and fetch = "serverReplies 200 ?data",
      OF nonblank fetch ok json err falsy missing] sentiment
  show ?thesis
    by (simp add: idlePage_def translationHtml_def bindE_def field_def)
qed


text \<open>
  C2, as the code has it. Take an envelope without a truthy top-level \<^verbatim>\<open>error\<close>
  whose three slots are objects, each either failed (a truthy \<^verbatim>\<open>error\<close>, whose text is
  \<open>x\<close>) or successful with content that can be written (no truthy \<^verbatim>\<open>error\<close>; the
  sentiment slot with a numeric \<^verbatim>\<open>score\<close>; the shown fields convertible to strings).
  Then every region receives what its own slot determines, whatever the other two slots
  are: the markup \<^verbatim>\<open><span class="text-danger">Error: x</span>\<close> for a failed slot, the
  success content for a successful one.
\<close>

theorem slots_rendered_independently:
  assumes nonblank: "trim (textValue p) \<noteq> []"
    and fetch: "fetch (analyzeRequest (textValue p) (sourceLangValue p) (targetLangValue p)) =
           Fulfilled r"
    and ok: "ok r"
    and json: "json r = Fulfilled (JObj fs)"
    and top: "\<not> truthy ops (field fs ''error'')"
    and slots: "field fs ''sentiment'' = JObj sf" "field fs ''translation'' = JObj tf"
           "field fs ''chat'' = JObj cf"
    and sentiment:
      \<open>(truthy ops (field sf ''error'') \<and> toStringJS ops (field sf ''error'') = Inr x1 \<and>
          S = ''<span class="text-danger">Error: '' @ x1 @ ''</span>'')
       \<or> (\<not> truthy ops (field sf ''error'') \<and>
          toStringJS ops (field sf ''sentiment'') = Inr l \<and> field sf ''score'' = JNum n \<and>
          S = ''Sentiment: '' @ l @ '' (Score: '' @ num_toFixed ops n 2 @ '')'')\<close>
    and translation:
      \<open>(truthy ops (field tf ''error'') \<and> toStringJS ops (field tf ''error'') = Inr x2 \<and>
          T = ''<span class="text-danger">Error: '' @ x2 @ ''</span>'')
       \<or> (\<not> truthy ops (field tf ''error'') \<and> toDOMString ops (field tf ''text'') = Inr T)\<close>
    and chat:
      \<open>(truthy ops (field cf ''error'') \<and> toStringJS ops (field cf ''error'') = Inr x3 \<and>
          C = ''<span class="text-danger">Error: '' @ x3 @ ''</span>'')
       \<or> (\<not> truthy ops (field cf ''error'') \<and> toDOMString ops (field cf ''response'') = Inr C)\<close>
  shows "snd (handler ops fetch p) = Normal
       \<and> resultsDisplay (fst (handler ops fetch p)) = ''block''
       \<and> sentimentResult (fst (handler ops fetch p)) = S
       \<and> translationResult (fst (handler ops fetch p)) = T
       \<and> chatResult (fst (handler ops fetch p)) = C"
proof -
  have err: "getprop (JObj fs) ''error'' = Inr (field fs ''error'')"
    by simp
  have s: "getprop (JObj fs) ''sentiment'' = Inr (JObj sf)"
    and t: "getprop (JObj fs) ''translation'' = Inr (JObj tf)"
    and c: "getprop (JObj fs) ''chat'' = Inr (JObj cf)"
    using slots by simp_all
  from sentiment have S: "sentimentHtml ops (JObj fs) = Inr S"
    using sentimentHtml_failed [OF s] sentimentHtml_succeeded [OF s]
    by (auto simp add: errorSpan_def)
  from translation have T: "bindE (translationHtml ops (JObj fs)) (toDOMString ops) = Inr T"
    using translationHtml_failed [OF t] translationHtml_succeeded [OF t]
    by (auto simp add: errorSpan_def)
  from chat have C: "bindE (chatHtml ops (JObj fs)) (toDOMString ops) = Inr C"
    using chatHtml_failed [OF c] chatHtml_succeeded [OF c]
    by (auto simp add: errorSpan_def)
  from handler_rendered [where fetch = fetch, OF nonblank fetch ok json err top S T C]
  show ?thesis
    by simp
qed

theorem slots_rendered_independently_witness:
  \<open>sentimentResult (fst (handler nat_ops
       (serverReplies 200 (JObj
          [(''sentiment'', JObj [(''error'', JStr ''X'')]),
           (''translation'', JObj [(''text'', JStr ''bonjour'')]),
           (''chat'', JObj [(''response'', JStr ''hello'')])])) idlePage)) =
     ''<span class="text-danger">Error: X</span>''
   \<and> translationResult (fst (handler nat_ops
       (serverReplies 200 (JObj
          [(''sentiment'', JObj [(''error'', JStr ''X'')]),
           (''translation'', JObj [(''text'', JStr ''bonjour'')]),
           (''chat'', JObj [(''response'', JStr ''hello'')])])) idlePage)) = ''bonjour''
   \<and> chatResult (fst (handler nat_ops
       (serverReplies 200 (JObj
          [(''sentiment'', JObj [(''error'', JStr ''X'')]),
           (''translation'', JObj [(''text'', JStr ''bonjour'')]),
           (''chat'', JObj [(''response'', JStr ''hello'')])])) idlePage)) = ''hello''
   \<and> resultsDisplay (fst (handler nat_ops
       (serverReplies 200 (JObj
          [(''sentiment'', JObj [(''error'', JStr ''X'')]),
           (''translation'', JObj [(''text'', JStr ''bonjour'')]),
           (''chat'', JObj [(''response'', JStr ''hello'')])])) idlePage)) = ''block''\<close>
proof -
  let ?sf = "[(''error'', JStr ''X'')] :: (string \<times> nat jsval) list"
  let ?tf = "[(''text'', JStr ''bonjour'')] :: (string \<times> nat jsval) list"
  let ?cf = "[(''response'', JStr ''hello'')] :: (string \<times> nat jsval) list"
  let ?fs = "[(''sentiment'', JObj ?sf), (''translation'', JObj ?tf), (''chat'', JObj ?cf)]"
  have nonblank: "trim (textValue idlePage) \<noteq> []"
    by (simp add: idlePage_def trim_def isWhiteSpace_def)
  have fetch: "serverReplies 200 (JObj ?fs)
      (analyzeRequest (textValue idlePage) (sourceLangValue idlePage) (targetLangValue idlePage)) =
    Fulfilled \<lparr>status = 200, json = Fulfilled (JObj ?fs)\<rparr>"
    by (simp add: serverReplies_def)
  have ok: "ok \<lparr>status = 200, json = Fulfilled (JObj ?fs)\<rparr>"
    by (simp add: ok_def)
  have json: "json \<lparr>status = 200, json = Fulfilled (JObj ?fs)\<rparr> = Fulfilled (JObj ?fs)"
    by simp
  have top: "\<not> truthy nat_ops (field ?fs ''error'')"
    by (simp add: field_def)
  have slots: "field ?fs ''sentiment'' = JObj ?sf" "field ?fs ''translation'' = JObj ?tf"
      "field ?fs ''chat'' = JObj ?cf"
    by (simp_all add: field_def)
  have sentiment:
    \<open>(truthy nat_ops (field ?sf ''error'') \<and> toStringJS nat_ops (field ?sf ''error'') = Inr ''X'' \<and>
        ''<span class="text-danger">Error: X</span>'' =
          ''<span class="text-danger">Error: '' @ ''X'' @ ''</span>'')
     \<or> (\<not> truthy nat_ops (field ?sf ''error'') \<and>
        toStringJS nat_ops (field ?sf ''sentiment'') = Inr [] \<and> field ?sf ''score'' = JNum 0 \<and>
        ''<span class="text-danger">Error: X</span>'' =
          ''Sentiment: '' @ [] @ '' (Score: '' @ num_toFixed nat_ops 0 2 @ '')'')\<close>
    by (simp add: field_def)
  have translation:
    \<open>(truthy nat_ops (field ?tf ''error'') \<and> toStringJS nat_ops (field ?tf ''error'') = Inr [] \<and>
        ''bonjour'' = ''<span class="text-danger">Error: '' @ [] @ ''</span>'')
     \<or> (\<not> truthy nat_ops (field ?tf ''error'') \<and>
        toDOMString nat_ops (field ?tf ''text'') = Inr ''bonjour'')\<close>
    by (simp add: field_def)
  have chat:
    \<open>(truthy nat_ops (field ?cf ''error'') \<and> toStringJS nat_ops (field ?cf ''error'') = Inr [] \<and>
        ''hello'' = ''<span class="text-danger">Error: '' @ [] @ ''</span>'')
     \<or> (\<not> truthy nat_ops (field ?cf ''error'') \<and>
        toDOMString nat_ops (field ?cf ''response'') = Inr ''hello'')\<close>
    by (simp add: field_def)
  from slots_rendered_independently [where ops = nat_ops
      and fetch = "serverReplies 200 (JObj ?fs)",
      OF nonblank fetch ok json top slots sentiment translation chat]
  show ?thesis
    by simp
qed

text \<open>
  Without these conditions a slot is not rendered on its own. When the success branch of
  the sentiment slot throws (here \<^verbatim>\<open>{"error": ""}\<close>, which has no \<^verbatim>\<open>score\<close>), the
  translation slot after it is never read: its region does not receive the markup for its
  error \<^verbatim>\<open>X\<close>. When the envelope also carries a truthy top-level \<^verbatim>\<open>error\<close>, line 38
  throws before any slot is read.
\<close>

theorem slot_rendering_stops_at_first_throw:
  \<open>translationResult (fst (handler nat_ops
       (serverReplies 200 (JObj
          [(''sentiment'', JObj [(''error'', JStr [])]),
           (''translation'', JObj [(''error'', JStr ''X'')]),
           (''chat'', JObj [(''response'', JStr ''hello'')])])) idlePage)) \<noteq>
     ''<span class="text-danger">Error: X</span>''
   \<and> translationResult (fst (handler nat_ops
       (serverReplies 200 (JObj
          [(''sentiment'', JObj [(''error'', JStr [])]),
           (''translation'', JObj [(''error'', JStr ''X'')]),
           (''chat'', JObj [(''response'', JStr ''hello'')])])) idlePage)) = []
   \<and> resultsDisplay (fst (handler nat_ops
       (serverReplies 200 (JObj
          [(''sentiment'', JObj [(''error'', JStr [])]),
           (''translation'', JObj [(''error'', JStr ''X'')]),
           (''chat'', JObj [(''response'', JStr ''hello'')])])) idlePage)) = ''none''
   \<and> sentimentResult (fst (handler nat_ops
       (serverReplies 200 (JObj
          [(''error'', JStr ''E''),
           (''sentiment'', JObj [(''error'', JStr ''X'')]),
           (''translation'', JObj [(''text'', JStr ''bonjour'')]),
           (''chat'', JObj [(''response'', JStr ''hello'')])])) idlePage)) \<noteq>
     ''<span class="text-danger">Error: X</span>''
   \<and> translationResult (fst (handler nat_ops
       (serverReplies 200 (JObj
          [(''error'', JStr ''E''),
           (''sentiment'', JObj [(''error'', JStr ''X'')]),
           (''translation'', JObj [(''text'', JStr ''bonjour'')]),
           (''chat'', JObj [(''response'', JStr ''hello'')])])) idlePage)) \<noteq> ''bonjour''\<close>
  by (simp add: handler_def tryBlock_def displayResults_def Let_def serverReplies_def
        ok_def idlePage_def trim_def isWhiteSpace_def emit_def showError_def
        showLoadingState_def hideError_def hideResults_def field_def sentimentHtml_def
        translationHtml_def chatHtml_def bindE_def genericMessage_def errorSpan_def)

text \<open>
  C7, as the code has it. When no slot and not the envelope has a truthy \<^verbatim>\<open>error\<close>,
  the sentiment slot has a numeric \<^verbatim>\<open>score\<close> and the shown fields convert to strings,
  the run ends with the banner hidden, the results region shown, the sentiment line with
  \<^verbatim>\<open>score.toFixed(2)\<close>, the translation text and the chat response.
\<close>

theorem all_slots_successful:
  assumes nonblank: "trim (textValue p) \<noteq> []"
    and fetch: "fetch (analyzeRequest (textValue p) (sourceLangValue p) (targetLangValue p)) =
           Fulfilled r"
    and ok: "ok r"
    and json: "json r = Fulfilled (JObj fs)"
    and top: "\<not> truthy ops (field fs ''error'')"
    and slots: "field fs ''sentiment'' = JObj sf" "field fs ''translation'' = JObj tf"
           "field fs ''chat'' = JObj cf"
    and no_errors: "\<not> truthy ops (field sf ''error'')" "\<not> truthy ops (field tf ''error'')"
           "\<not> truthy ops (field cf ''error'')"
    and sentiment: "toStringJS ops (field sf ''sentiment'') = Inr l" "field sf ''score'' = JNum n"
    and translation: "toDOMString ops (field tf ''text'') = Inr t"
    and chat: "toDOMString ops (field cf ''response'') = Inr c"
  shows "snd (handler ops fetch p) = Normal
       \<and> errorDisplay (fst (handler ops fetch p)) = ''none''
       \<and> resultsDisplay (fst (handler ops fetch p)) = ''block''
       \<and> sentimentResult (fst (handler ops fetch p)) =
           ''Sentiment: '' @ l @ '' (Score: '' @ num_toFixed ops n 2 @ '')''
       \<and> translationResult (fst (handler ops fetch p)) = t
       \<and> chatResult (fst (handler ops fetch p)) = c"
proof -
  have err: "getprop (JObj fs) ''error'' = Inr (field fs ''error'')"
    by simp
  have s: "getprop (JObj fs) ''sentiment'' = Inr (JObj sf)"
    and t: "getprop (JObj fs) ''translation'' = Inr (JObj tf)"
    and c: "getprop (JObj fs) ''chat'' = Inr (JObj cf)"
    using slots by simp_all
  note S = sentimentHtml_succeeded [OF s no_errors(1) sentiment]
  note T = translationHtml_succeeded [OF t no_errors(2) translation]
  note C = chatHtml_succeeded [OF c no_errors(3) chat]
  from handler_rendered [where fetch = fetch, OF nonblank fetch ok json err top S T C]
  show ?thesis
    by simp
qed

theorem all_slots_successful_witness:
  "errorDisplay (fst (handler nat_ops
       (serverReplies 200 (JObj
          [(''sentiment'', JObj [(''sentiment'', JStr ''positive''), (''score'', JNum 1)]),
           (''translation'', JObj [(''text'', JStr ''bonjour'')]),
           (''chat'', JObj [(''response'', JStr ''hello'')])])) idlePage)) = ''none''
   \<and> resultsDisplay (fst (handler nat_ops
       (serverReplies 200 (JObj
          [(''sentiment'', JObj [(''sentiment'', JStr ''positive''), (''score'', JNum 1)]),
           (''translation'', JObj [(''text'', JStr ''bonjour'')]),
           (''chat'', JObj [(''response'', JStr ''hello'')])])) idlePage)) = ''block''
   \<and> sentimentResult (fst (handler nat_ops
       (serverReplies 200 (JObj
          [(''sentiment'', JObj [(''sentiment'', JStr ''positive''), (''score'', JNum 1)]),
           (''translation'', JObj [(''text'', JStr ''bonjour'')]),
           (''chat'', JObj [(''response'', JStr ''hello'')])])) idlePage)) =
     ''Sentiment: positive (Score: 1.00)''
   \<and> translationResult (fst (handler nat_ops
       (serverReplies 200 (JObj
          [(''sentiment'', JObj [(''sentiment'', JStr ''positive''), (''score'', JNum 1)]),
           (''translation'', JObj [(''text'', JStr ''bonjour'')]),
           (''chat'', JObj [(''response'', JStr ''hello'')])])) idlePage)) = ''bonjour''
   \<and> chatResult (fst (handler nat_ops
       (serverReplies 200 (JObj
          [(''sentiment'', JObj [(''sentiment'', JStr ''positive''), (''score'', JNum 1)]),
           (''translation'', JObj [(''text'', JStr ''bonjour'')]),
           (''chat'', JObj [(''response'', JStr ''hello'')])])) idlePage)) = ''hello''"
proof -
  let ?sf = "[(''sentiment'', JStr ''positive''), (''score'', JNum 1)] :: (string \<times> nat jsval) list"
  let ?tf = "[(''text'', JStr ''bonjour'')] :: (string \<times> nat jsval) list"
  let ?cf = "[(''response'', JStr ''hello'')] :: (string \<times> nat jsval) list"
  let ?fs = "[(''sentiment'', JObj ?sf), (''translation'', JObj ?tf), (''chat'', JObj ?cf)]"
  have nonblank: "trim (textValue idlePage) \<noteq> []"
    by (simp add: idlePage_def trim_def isWhiteSpace_def)
  have fetch: "serverReplies 200 (JObj ?fs)
      (analyzeRequest (textValue idlePage) (sourceLangValue idlePage) (targetLangValue idlePage)) =
    Fulfilled \<lparr>status = 200, json = Fulfilled (JObj ?fs)\<rparr>"
    by (simp add: serverReplies_def)
  have ok: "ok \<lparr>status = 200, json = Fulfilled (JObj ?fs)\<rparr>"
    by (simp add: ok_def)
  have json: "json \<lparr>status = 200, json = Fulfilled (JObj ?fs)\<rparr> = Fulfilled (JObj ?fs)"
    by simp
  have top: "\<not> truthy nat_ops (field ?fs ''error'')"
    by (simp add: field_def)
  have slots: "field ?fs ''sentiment'' = JObj ?sf" "field ?fs ''translation'' = JObj ?tf"
      "field ?fs ''chat'' = JObj ?cf"
    by (simp_all add: field_def)
  have no_errors: "\<not> truthy nat_ops (field ?sf ''error'')"
      "\<not> truthy nat_ops (field ?tf ''error'')" "\<not> truthy nat_ops (field ?cf ''error'')"
    by (simp_all add: field_def)
  have sentiment: "toStringJS nat_ops (field ?sf ''sentiment'') = Inr ''positive''"
      "field ?sf ''score'' = JNum 1"
    by (simp_all add: field_def)
  have translation: "toDOMString nat_ops (field ?tf ''text'') = Inr ''bonjour''"
    by (simp add: field_def)
  have chat: "toDOMString nat_ops (field ?cf ''response'') = Inr ''hello''"
    by (simp add: field_def)
  from all_slots_successful [where ops = nat_ops and fetch = "serverReplies 200 (JObj ?fs)",
      OF nonblank fetch ok json top slots no_errors sentiment translation chat]
  show ?thesis
    by (simp add: nat_ops_examples)
qed

text \<open>
  An absent truthy \<^verbatim>\<open>error\<close> is not enough: for a sentiment slot without a \<^verbatim>\<open>score\<close>,
  \<^verbatim>\<open>data.sentiment.score.toFixed(2)\<close> throws, and the run ends with the banner shown,
  the results hidden and no region written.
\<close>

theorem no_truthy_error_without_score:
  "errorDisplay (fst (handler nat_ops
       (serverReplies 200 (JObj
          [(''sentiment'', JObj [(''sentiment'', JStr ''positive'')]),
           (''translation'', JObj [(''text'', JStr ''bonjour'')]),
           (''chat'', JObj [(''response'', JStr ''hello'')])])) idlePage)) = ''block''
   \<and> errorMessage (fst (handler nat_ops
       (serverReplies 200 (JObj
          [(''sentiment'', JObj [(''sentiment'', JStr ''positive'')]),
           (''translation'', JObj [(''text'', JStr ''bonjour'')]),
           (''chat'', JObj [(''response'', JStr ''hello'')])])) idlePage)) =
     ''An error occurred while processing your request. Please try again.''
   \<and> resultsDisplay (fst (handler nat_ops
       (serverReplies 200 (JObj
          [(''sentiment'', JObj [(''sentiment'', JStr ''positive'')]),
           (''translation'', JObj [(''text'', JStr ''bonjour'')]),
           (''chat'', JObj [(''response'', JStr ''hello'')])])) idlePage)) = ''none''
   \<and> sentimentResult (fst (handler nat_ops
       (serverReplies 200 (JObj
          [(''sentiment'', JObj [(''sentiment'', JStr ''positive'')]),
           (''translation'', JObj [(''text'', JStr ''bonjour'')]),
           (''chat'', JObj [(''response'', JStr ''hello'')])])) idlePage)) = []
   \<and> translationResult (fst (handler nat_ops
       (serverReplies 200 (JObj
          [(''sentiment'', JObj [(''sentiment'', JStr ''positive'')]),
           (''translation'', JObj [(''text'', JStr ''bonjour'')]),
           (''chat'', JObj [(''response'', JStr ''hello'')])])) idlePage)) = []
   \<and> chatResult (fst (handler nat_ops
       (serverReplies 200 (JObj
          [(''sentiment'', JObj [(''sentiment'', JStr ''positive'')]),
           (''translation'', JObj [(''text'', JStr ''bonjour'')]),
           (''chat'', JObj [(''response'', JStr ''hello'')])])) idlePage)) = []"
  by (simp add: handler_def tryBlock_def displayResults_def Let_def serverReplies_def
        ok_def idlePage_def trim_def isWhiteSpace_def emit_def showError_def
        showLoadingState_def hideError_def hideResults_def field_def sentimentHtml_def
        translationHtml_def chatHtml_def bindE_def genericMessage_def errorSpan_def)

text \<open>
  C8, as the code has it. For an envelope as in C2, a slot whose \<^verbatim>\<open>error\<close> is the empty
  string is not a failed slot, since the empty string is falsy: the success branch is
  taken and the region receives the slot's success content.
\<close>

theorem empty_error_string_is_success:
  assumes nonblank: "trim (textValue p) \<noteq> []"
    and fetch: "fetch (analyzeRequest (textValue p) (sourceLangValue p) (targetLangValue p)) =
           Fulfilled r"
    and ok: "ok r"
    and json: "json r = Fulfilled (JObj fs)"
    and top: "\<not> truthy ops (field fs ''error'')"
    and slots: "field fs ''sentiment'' = JObj sf" "field fs ''translation'' = JObj tf"
           "field fs ''chat'' = JObj cf"
    and sentiment:
      "(truthy ops (field sf ''error'') \<and> toStringJS ops (field sf ''error'') = Inr x1)
       \<or> (\<not> truthy ops (field sf ''error'') \<and>
          toStringJS ops (field sf ''sentiment'') = Inr l \<and> field sf ''score'' = JNum n)"
    and translation:
      "(truthy ops (field tf ''error'') \<and> toStringJS ops (field tf ''error'') = Inr x2)
       \<or> (\<not> truthy ops (field tf ''error'') \<and> toDOMString ops (field tf ''text'') = Inr t)"
    and chat:
      "(truthy ops (field cf ''error'') \<and> toStringJS ops (field cf ''error'') = Inr x3)
       \<or> (\<not> truthy ops (field cf ''error'') \<and> toDOMString ops (field cf ''response'') = Inr c)"
  shows "snd (handler ops fetch p) = Normal
       \<and> resultsDisplay (fst (handler ops fetch p)) = ''block''
       \<and> (field sf ''error'' = JStr [] \<longrightarrow>
            sentimentResult (fst (handler ops fetch p)) =
              ''Sentiment: '' @ l @ '' (Score: '' @ num_toFixed ops n 2 @ '')'')
       \<and> (field tf ''error'' = JStr [] \<longrightarrow> translationResult (fst (handler ops fetch p)) = t)
       \<and> (field cf ''error'' = JStr [] \<longrightarrow> chatResult (fst (handler ops fetch p)) = c)"
proof -
  have err: "getprop (JObj fs) ''error'' = Inr (field fs ''error'')"
    by simp
  have s: "getprop (JObj fs) ''sentiment'' = Inr (JObj sf)"
    and t: "getprop (JObj fs) ''translation'' = Inr (JObj tf)"
    and c: "getprop (JObj fs) ''chat'' = Inr (JObj cf)"
    using slots by simp_all
  have "\<exists>S. sentimentHtml ops (JObj fs) = Inr S \<and>
      (field sf ''error'' = JStr [] \<longrightarrow>
         S = ''Sentiment: '' @ l @ '' (Score: '' @ num_toFixed ops n 2 @ '')'')"
    using sentiment sentimentHtml_failed [OF s, of ops x1]
      sentimentHtml_succeeded [OF s, of ops l n]
    by auto
  then obtain S where S: "sentimentHtml ops (JObj fs) = Inr S"
    and S_empty: "field sf ''error'' = JStr [] \<longrightarrow>
       S = ''Sentiment: '' @ l @ '' (Score: '' @ num_toFixed ops n 2 @ '')''"
    by blast
  have "\<exists>T. bindE (translationHtml ops (JObj fs)) (toDOMString ops) = Inr T \<and>
      (field tf ''error'' = JStr [] \<longrightarrow> T = t)"
    using translation translationHtml_failed [OF t, of ops x2]
      translationHtml_succeeded [OF t, of ops t]
    by auto
  then obtain T where T: "bindE (translationHtml ops (JObj fs)) (toDOMString ops) = Inr T"
    and T_empty: "field tf ''error'' = JStr [] \<longrightarrow> T = t"
    by blast
  have "\<exists>C. bindE (chatHtml ops (JObj fs)) (toDOMString ops) = Inr C \<and>
      (field cf ''error'' = JStr [] \<longrightarrow> C = c)"
    using chat chatHtml_failed [OF c, of ops x3] chatHtml_succeeded [OF c, of ops c]
    by auto
  then obtain C where C: "bindE (chatHtml ops (JObj fs)) (toDOMString ops) = Inr C"
    and C_empty: "field cf ''error'' = JStr [] \<longrightarrow> C = c"
    by blast
  from handler_rendered [where fetch = fetch, OF nonblank fetch ok json err top S T C]
  show ?thesis
    using S_empty T_empty C_empty by simp
qed

theorem empty_error_string_is_success_witness:
  \<open>field [(''error'', JStr []), (''sentiment'', JStr ''positive''), (''score'', JNum (1::nat))]
       ''error'' = JStr []
   \<and> sentimentResult (fst (handler nat_ops
       (serverReplies 200 (JObj
          [(''sentiment'',
            JObj [(''error'', JStr []), (''sentiment'', JStr ''positive''), (''score'', JNum 1)]),
           (''translation'', JObj [(''error'', JStr []), (''text'', JStr ''bonjour'')]),
           (''chat'', JObj [(''error'', JStr ''down'')])])) idlePage)) =
     ''Sentiment: positive (Score: 1.00)''
   \<and> translationResult (fst (handler nat_ops
       (serverReplies 200 (JObj
          [(''sentiment'',
            JObj [(''error'', JStr []), (''sentiment'', JStr ''positive''), (''score'', JNum 1)]),
           (''translation'', JObj [(''error'', JStr []), (''text'', JStr ''bonjour'')]),
           (''chat'', JObj [(''error'', JStr ''down'')])])) idlePage)) = ''bonjour''
   \<and> chatResult (fst (handler nat_ops
       (serverReplies 200 (JObj
          [(''sentiment'',
            JObj [(''error'', JStr []), (''sentiment'', JStr ''positive''), (''score'', JNum 1)]),
           (''translation'', JObj [(''error'', JStr []), (''text'', JStr ''bonjour'')]),
           (''chat'', JObj [(''error'', JStr ''down'')])])) idlePage)) =
     ''<span class="text-danger">Error: down</span>''\<close>
proof -
  let ?sf = "[(''error'', JStr []), (''sentiment'', JStr ''positive''), (''score'', JNum 1)]
      :: (string \<times> nat jsval) list"
  let ?tf = "[(''error'', JStr []), (''text'', JStr ''bonjour'')] :: (string \<times> nat jsval) list"
  let ?cf = "[(''error'', JStr ''down'')] :: (string \<times> nat jsval) list"
  let ?fs = "[(''sentiment'', JObj ?sf), (''translation'', JObj ?tf), (''chat'', JObj ?cf)]"
  have nonblank: "trim (textValue idlePage) \<noteq> []"
    by (simp add: idlePage_def trim_def isWhiteSpace_def)
  have fetch: "serverReplies 200 (JObj ?fs)
      (analyzeRequest (textValue idlePage) (sourceLangValue idlePage) (targetLangValue idlePage)) =
    Fulfilled \<lparr>status = 200, json = Fulfilled (JObj ?fs)\<rparr>"
    by (simp add: serverReplies_def)
  have ok: "ok \<lparr>status = 200, json = Fulfilled (JObj ?fs)\<rparr>"
    by (simp add: ok_def)
  have json: "json \<lparr>status = 200, json = Fulfilled (JObj ?fs)\<rparr> = Fulfilled (JObj ?fs)"
    by simp
  have top: "\<not> truthy nat_ops (field ?fs ''error'')"
    by (simp add: field_def)
  have slots: "field ?fs ''sentiment'' = JObj ?sf" "field ?fs ''translation'' = JObj ?tf"
      "field ?fs ''chat'' = JObj ?cf"
    by (simp_all add: field_def)
  have sentiment:
    "(truthy nat_ops (field ?sf ''error'') \<and> toStringJS nat_ops (field ?sf ''error'') = Inr [])
     \<or> (\<not> truthy nat_ops (field ?sf ''error'') \<and>
        toStringJS nat_ops (field ?sf ''sentiment'') = Inr ''positive'' \<and>
        field ?sf ''score'' = JNum 1)"
    by (simp add: field_def)
  have translation:
    "(truthy nat_ops (field ?tf ''error'') \<and> toStringJS nat_ops (field ?tf ''error'') = Inr [])
     \<or> (\<not> truthy nat_ops (field ?tf ''error'') \<and>
        toDOMString nat_ops (field ?tf ''text'') = Inr ''bonjour'')"
    by (simp add: field_def)
  have chat:
    "(truthy nat_ops (field ?cf ''error'') \<and> toStringJS nat_ops (field ?cf ''error'') = Inr ''down'')
     \<or> (\<not> truthy nat_ops (field ?cf ''error'') \<and>
        toDOMString nat_ops (field ?cf ''response'') = Inr [])"
    by (simp add: field_def)
  have empty: "field ?sf ''error'' = JStr []" "field ?tf ''error'' = JStr []"
    by (simp_all add: field_def)
  have down: \<open>chatResult (fst (handler nat_ops (serverReplies 200 (JObj ?fs)) idlePage)) =
      ''<span class="text-danger">Error: down</span>''\<close>
    by (simp add: handler_def tryBlock_def displayResults_def Let_def serverReplies_def ok_def
          idlePage_def trim_def isWhiteSpace_def emit_def showLoadingState_def hideError_def
          hideResults_def field_def analyzeRequest_def sentimentHtml_def translationHtml_def
          chatHtml_def bindE_def errorSpan_def nat_ops_examples)
  from empty_error_string_is_success [where ops = nat_ops
      and fetch = "serverReplies 200 (JObj ?fs)",
      OF nonblank fetch ok json top slots sentiment translation chat]
  show ?thesis
    using empty down by (simp add: nat_ops_examples)
qed

text \<open>
  A sentiment slot that holds nothing but the empty \<^verbatim>\<open>error\<close> has no success content:
  the success branch is taken and throws at \<^verbatim>\<open>score.toFixed(2)\<close>, the sentiment region
  is not written and the generic banner is shown.
\<close>

theorem empty_error_string_without_content:
  "field [(''error'', JStr [])] ''error'' = (JStr [] :: nat jsval)
   \<and> sentimentResult (fst (handler nat_ops
       (serverReplies 200 (JObj
          [(''sentiment'', JObj [(''error'', JStr [])]),
           (''translation'', JObj [(''text'', JStr ''bonjour'')]),
           (''chat'', JObj [(''response'', JStr ''hello'')])])) idlePage)) = []
   \<and> errorDisplay (fst (handler nat_ops
       (serverReplies 200 (JObj
          [(''sentiment'', JObj [(''error'', JStr [])]),
           (''translation'', JObj [(''text'', JStr ''bonjour'')]),
           (''chat'', JObj [(''response'', JStr ''hello'')])])) idlePage)) = ''block''
   \<and> errorMessage (fst (handler nat_ops
       (serverReplies 200 (JObj
          [(''sentiment'', JObj [(''error'', JStr [])]),
           (''translation'', JObj [(''text'', JStr ''bonjour'')]),
           (''chat'', JObj [(''response'', JStr ''hello'')])])) idlePage)) =
     ''An error occurred while processing your request. Please try again.''
   \<and> resultsDisplay (fst (handler nat_ops
       (serverReplies 200 (JObj
          [(''sentiment'', JObj [(''error'', JStr [])]),
           (''translation'', JObj [(''text'', JStr ''bonjour'')]),
           (''chat'', JObj [(''response'', JStr ''hello'')])])) idlePage)) = ''none''"
  by (simp add: handler_def tryBlock_def displayResults_def Let_def serverReplies_def
        ok_def idlePage_def trim_def isWhiteSpace_def emit_def showError_def
        showLoadingState_def hideError_def hideResults_def field_def sentimentHtml_def
        translationHtml_def chatHtml_def bindE_def genericMessage_def errorSpan_def)

end
